theory Spec2Isabelle
  imports Complex_Main "HOL-Library.AList" "HOL-Library.Multiset"
begin

section \<open>Average rating per brand: a model of \<^verbatim>\<open>main.py\<close>\<close>

text \<open>
  The script reads CSV files into a list of records (\<^verbatim>\<open>read_csv_files\<close>), computes
  the mean rating of every brand (\<^verbatim>\<open>calculate_average_rating\<close>) and prints a table
  (\<^verbatim>\<open>generate_report\<close>). Each function is modelled with its effects made explicit:
  the lines it prints are returned next to its outcome, and an exception that leaves the
  function is the \<open>Inl\<close> branch of the outcome.
\<close>

subsection \<open>Exceptions, dictionaries, floats\<close>

text \<open>
  The exceptions that the three functions raise or meet, each with its message where it
  has one. \<^verbatim>\<open>OSError\<close> stands for the failures of \<^verbatim>\<open>open\<close> other than a missing file
  (\<^verbatim>\<open>PermissionError\<close>, \<^verbatim>\<open>IsADirectoryError\<close>), \<^verbatim>\<open>CsvError\<close> for \<^verbatim>\<open>csv.Error\<close>.
\<close>

datatype py_error =
    KeyError string
  | ValueError string
  | UnicodeDecodeError string
  | ZeroDivisionError
  | FileNotFoundError string
  | OSError string
  | CsvError string
  | SystemExit int


text \<open>
  A Python \<^verbatim>\<open>dict\<close> keeps its keys in insertion order, and the order in which
  \<^verbatim>\<open>brand_ratings\<close> is traversed decides the order of ties in the result. A dictionary
  is therefore an association list in insertion order: assigning to a key that is present
  replaces its value in place, assigning to a new key appends it.
\<close>

type_synonym ('k, 'v) dict = "('k \<times> 'v) list"

text \<open>\<^verbatim>\<open>d[k]\<close>, which raises \<^verbatim>\<open>KeyError(k)\<close> when the key is absent.\<close>

definition getitem :: "(string, 'v) dict \<Rightarrow> string \<Rightarrow> py_error + 'v" where
  "getitem d k = (case map_of d k of None \<Rightarrow> Inl (KeyError k) | Some v \<Rightarrow> Inr v)"

text \<open>\<^verbatim>\<open>d[k] = v\<close>.\<close>

definition setitem :: "('k, 'v) dict \<Rightarrow> 'k \<Rightarrow> 'v \<Rightarrow> ('k, 'v) dict" where
  "setitem d k v = AList.update k v d"

text \<open>\<^verbatim>\<open>k in d\<close>.\<close>

definition contains :: "('k, 'v) dict \<Rightarrow> 'k \<Rightarrow> bool" where
  "contains d k = (k \<in> set (map fst d))"

text \<open>
  A row of a CSV file, as \<^verbatim>\<open>csv.DictReader\<close> yields it: the annotation of the source is
  \<^verbatim>\<open>Dict[str, str]\<close>. Strings are byte strings in UTF-8.
\<close>

type_synonym row = "(string, string) dict"

text \<open>
  \<^verbatim>\<open>list.sort\<close> works in place by moving the elements of the list: whatever the
  comparisons answer, the list afterwards is a permutation of the list before, nothing
  lost and nothing duplicated. A call of it is a function of this type.
\<close>

typedef 'a rearrangement = "{f :: 'a list \<Rightarrow> 'a list. \<forall>xs. mset (f xs) = mset xs}"
  morphisms rearrange Abs_rearrangement
  by (rule exI [of _ id]) simp

setup_lifting type_definition_rearrangement

text \<open>
  The floating-point operations and the sort are Python's own, not code of the script,
  and the model takes them as a parameter: the type \<open>'f\<close> of floats and what the script
  does with them. Every theorem that speaks of \<open>ops\<close> holds for every such structure, so
  also for IEEE binary64 with its rounding, infinities and NaN, and for the sort of any
  version of Python.
  \<^item> \<open>parse_float s\<close> is \<^verbatim>\<open>float(s)\<close>; \<open>None\<close> stands for \<^verbatim>\<open>ValueError\<close>;
  \<^item> \<open>fzero\<close> is \<^verbatim>\<open>0.0\<close>, \<open>fadd\<close> is \<^verbatim>\<open>+\<close>;
  \<^item> \<open>fdiv x n\<close> is \<^verbatim>\<open>x / n\<close> for a float \<open>x\<close> and a non-zero integer \<open>n\<close>
    (for \<open>n = 0\<close> Python raises, and the model says so where it divides);
  \<^item> \<open>fmt1 x\<close> is the format \<^verbatim>\<open>f"{x:.1f}"\<close>;
  \<^item> \<open>sort_by_rating\<close> is \<^verbatim>\<open>list.sort(key=lambda x: x[1], reverse=True)\<close> on a list of
    pairs of a brand and a float.
\<close>

record 'f float_ops =
  parse_float :: "string \<Rightarrow> 'f option"
  fzero :: 'f
  fadd :: "'f \<Rightarrow> 'f \<Rightarrow> 'f"
  fdiv :: "'f \<Rightarrow> int \<Rightarrow> 'f"
  fmt1 :: "'f \<Rightarrow> string"
  sort_by_rating :: "(string \<times> 'f) rearrangement"

subsection \<open>The messages\<close>

text \<open>
  The texts of the script are Russian; they are given as the bytes of their UTF-8
  encoding. The warning reads
  \<^verbatim>\<open>f"<warning_head>{record['rating']}<warning_product>{record['name']}<warning_brand>{brand}<warning_tail>"\<close>.
\<close>

definition warning_head :: string where
  "warning_head = [
     CHR 0xD0, CHR 0x9F, CHR 0xD1, CHR 0x80, CHR 0xD0, CHR 0xB5, CHR 0xD0, CHR 0xB4,
     CHR 0xD1, CHR 0x83, CHR 0xD0, CHR 0xBF, CHR 0xD1, CHR 0x80, CHR 0xD0, CHR 0xB5,
     CHR 0xD0, CHR 0xB6, CHR 0xD0, CHR 0xB4, CHR 0xD0, CHR 0xB5, CHR 0xD0, CHR 0xBD,
     CHR 0xD0, CHR 0xB8, CHR 0xD0, CHR 0xB5, CHR 0x3A, CHR 0x20, CHR 0xD0, CHR 0xBD,
     CHR 0xD0, CHR 0xB5, CHR 0xD0, CHR 0xBA, CHR 0xD0, CHR 0xBE, CHR 0xD1, CHR 0x80,
     CHR 0xD1, CHR 0x80, CHR 0xD0, CHR 0xB5, CHR 0xD0, CHR 0xBA, CHR 0xD1, CHR 0x82,
     CHR 0xD0, CHR 0xBD, CHR 0xD1, CHR 0x8B, CHR 0xD0, CHR 0xB9, CHR 0x20, CHR 0xD1,
     CHR 0x80, CHR 0xD0, CHR 0xB5, CHR 0xD0, CHR 0xB9, CHR 0xD1, CHR 0x82, CHR 0xD0,
     CHR 0xB8, CHR 0xD0, CHR 0xBD, CHR 0xD0, CHR 0xB3, CHR 0x20, CHR 0x27]"

definition warning_product :: string where
  "warning_product = [
     CHR 0x27, CHR 0x20, CHR 0xD0, CHR 0xB4, CHR 0xD0, CHR 0xBB, CHR 0xD1, CHR 0x8F,
     CHR 0x20, CHR 0xD1, CHR 0x82, CHR 0xD0, CHR 0xBE, CHR 0xD0, CHR 0xB2, CHR 0xD0,
     CHR 0xB0, CHR 0xD1, CHR 0x80, CHR 0xD0, CHR 0xB0, CHR 0x20]"

definition warning_brand :: string where
  "warning_brand = [
     CHR 0x2C, CHR 0x20, CHR 0xD0, CHR 0xB1, CHR 0xD1, CHR 0x80, CHR 0xD0, CHR 0xB5,
     CHR 0xD0, CHR 0xBD, CHR 0xD0, CHR 0xB4, CHR 0x20]"

definition warning_tail :: string where
  "warning_tail = [
     CHR 0x2E, CHR 0x20, CHR 0xD0, CHR 0x9F, CHR 0xD1, CHR 0x80, CHR 0xD0, CHR 0xBE,
     CHR 0xD0, CHR 0xBF, CHR 0xD1, CHR 0x83, CHR 0xD1, CHR 0x81, CHR 0xD0, CHR 0xBA,
     CHR 0xD0, CHR 0xB0, CHR 0xD0, CHR 0xB5, CHR 0xD0, CHR 0xBC, CHR 0x2E]"

definition not_found_head :: string where
  "not_found_head = [
     CHR 0xD0, CHR 0x9E, CHR 0xD1, CHR 0x88, CHR 0xD0, CHR 0xB8, CHR 0xD0, CHR 0xB1,
     CHR 0xD0, CHR 0xBA, CHR 0xD0, CHR 0xB0, CHR 0x3A, CHR 0x20, CHR 0xD1, CHR 0x84,
     CHR 0xD0, CHR 0xB0, CHR 0xD0, CHR 0xB9, CHR 0xD0, CHR 0xBB, CHR 0x20, CHR 0xD0,
     CHR 0xBD, CHR 0xD0, CHR 0xB5, CHR 0x20, CHR 0xD0, CHR 0xBD, CHR 0xD0, CHR 0xB0,
     CHR 0xD0, CHR 0xB9, CHR 0xD0, CHR 0xB4, CHR 0xD0, CHR 0xB5, CHR 0xD0, CHR 0xBD,
     CHR 0x20, CHR 0xE2, CHR 0x80, CHR 0x94, CHR 0x20]"

definition csv_error_head :: string where
  "csv_error_head = [
     CHR 0xD0, CHR 0x9E, CHR 0xD1, CHR 0x88, CHR 0xD0, CHR 0xB8, CHR 0xD0, CHR 0xB1,
     CHR 0xD0, CHR 0xBA, CHR 0xD0, CHR 0xB0, CHR 0x20, CHR 0xD0, CHR 0xBF, CHR 0xD1,
     CHR 0x80, CHR 0xD0, CHR 0xB8, CHR 0x20, CHR 0xD1, CHR 0x87, CHR 0xD1, CHR 0x82,
     CHR 0xD0, CHR 0xB5, CHR 0xD0, CHR 0xBD, CHR 0xD0, CHR 0xB8, CHR 0xD0, CHR 0xB8,
     CHR 0x20, CHR 0x43, CHR 0x53, CHR 0x56, CHR 0x2D, CHR 0xD1, CHR 0x84, CHR 0xD0,
     CHR 0xB0, CHR 0xD0, CHR 0xB9, CHR 0xD0, CHR 0xBB, CHR 0xD0, CHR 0xB0, CHR 0x20]"

definition unsupported_head :: string where
  "unsupported_head = [
     CHR 0xD0, CHR 0x9D, CHR 0xD0, CHR 0xB5, CHR 0xD0, CHR 0xBF, CHR 0xD0, CHR 0xBE,
     CHR 0xD0, CHR 0xB4, CHR 0xD0, CHR 0xB4, CHR 0xD0, CHR 0xB5, CHR 0xD1, CHR 0x80,
     CHR 0xD0, CHR 0xB6, CHR 0xD0, CHR 0xB8, CHR 0xD0, CHR 0xB2, CHR 0xD0, CHR 0xB0,
     CHR 0xD0, CHR 0xB5, CHR 0xD0, CHR 0xBC, CHR 0xD1, CHR 0x8B, CHR 0xD0, CHR 0xB9,
     CHR 0x20, CHR 0xD1, CHR 0x82, CHR 0xD0, CHR 0xB8, CHR 0xD0, CHR 0xBF, CHR 0x20,
     CHR 0xD0, CHR 0xBE, CHR 0xD1, CHR 0x82, CHR 0xD1, CHR 0x87, CHR 0xD1, CHR 0x91,
     CHR 0xD1, CHR 0x82, CHR 0xD0, CHR 0xB0, CHR 0x3A, CHR 0x20]"

definition warning_text :: "string \<Rightarrow> string \<Rightarrow> string \<Rightarrow> string" where
  "warning_text raw name brand =
     warning_head @ raw @ warning_product @ name @ warning_brand @ brand @ warning_tail"

definition not_found_text :: "string \<Rightarrow> string" where
  "not_found_text file_path = not_found_head @ file_path"

definition csv_error_text :: "string \<Rightarrow> string \<Rightarrow> string" where
  "csv_error_text file_path e = csv_error_head @ file_path @ '': '' @ e"

definition unsupported_text :: "string \<Rightarrow> string" where
  "unsupported_text report_type = unsupported_head @ report_type"

subsection \<open>\<^verbatim>\<open>calculate_average_rating\<close>\<close>

text \<open>The variables of the loop: the two dictionaries and the lines written to stderr.\<close>

record 'f accumulators =
  brand_ratings :: "(string, 'f) dict"
  brand_counts :: "(string, int) dict"
  warnings :: "string list"

text \<open>
  Lines 65 to 69: a brand seen for the first time enters both dictionaries, then the
  rating is added to its sum and its count goes up by one.
\<close>

definition accumulate ::
  "'f float_ops \<Rightarrow> 'f accumulators \<Rightarrow> string \<Rightarrow> 'f \<Rightarrow> py_error + 'f accumulators" where
  "accumulate ops acc brand rating =
     (let acc1 = (if \<not> contains (brand_ratings acc) brand
                  then acc\<lparr>brand_ratings := setitem (brand_ratings acc) brand (fzero ops),
                           brand_counts := setitem (brand_counts acc) brand 0\<rparr>
                  else acc)
      in case getitem (brand_ratings acc1) brand of
           Inl e \<Rightarrow> Inl e
         | Inr rating_sum \<Rightarrow>
             (let acc2 = acc1\<lparr>brand_ratings :=
                                 setitem (brand_ratings acc1) brand (fadd ops rating_sum rating)\<rparr>
              in case getitem (brand_counts acc2) brand of
                   Inl e \<Rightarrow> Inl e
                 | Inr n \<Rightarrow>
                     Inr (acc2\<lparr>brand_counts := setitem (brand_counts acc2) brand (n + 1)\<rparr>)))"

text \<open>
  The body of the loop, lines 55 to 69. \<^verbatim>\<open>record['brand']\<close> is read first, outside the
  \<^verbatim>\<open>try\<close>; \<^verbatim>\<open>record['rating']\<close> is read inside it, where only \<^verbatim>\<open>ValueError\<close> is caught;
  the handler reads \<^verbatim>\<open>record['name']\<close> to build the warning before it prints.
\<close>

definition process_record ::
  "'f float_ops \<Rightarrow> 'f accumulators \<Rightarrow> row \<Rightarrow> py_error + 'f accumulators" where
  "process_record ops acc record =
     (case getitem record ''brand'' of
        Inl e \<Rightarrow> Inl e
      | Inr brand \<Rightarrow>
          (case getitem record ''rating'' of
             Inl e \<Rightarrow> Inl e
           | Inr raw \<Rightarrow>
               (case parse_float ops raw of
                  None \<Rightarrow>
                    (case getitem record ''name'' of
                       Inl e \<Rightarrow> Inl e
                     | Inr name \<Rightarrow>
                         Inr (acc\<lparr>warnings := warnings acc @ [warning_text raw name brand]\<rparr>))
                | Some rating \<Rightarrow> accumulate ops acc brand rating)))"

text \<open>
  The loop over the records. An exception ends it; the lines written before stay
  written.
\<close>

fun for_each_record ::
  "'f float_ops \<Rightarrow> 'f accumulators \<Rightarrow> row list \<Rightarrow> 'f accumulators \<times> py_error option" where
  "for_each_record ops acc [] = (acc, None)"
| "for_each_record ops acc (record # records) =
     (case process_record ops acc record of
        Inl e \<Rightarrow> (acc, Some e)
      | Inr acc' \<Rightarrow> for_each_record ops acc' records)"

text \<open>
  One element of the comprehension of lines 71 to 74:
  \<^verbatim>\<open>(brand, brand_ratings[brand] / brand_counts[brand])\<close>. Dividing a float by the
  integer zero raises \<^verbatim>\<open>ZeroDivisionError\<close>.
\<close>

definition average_entry ::
  "'f float_ops \<Rightarrow> 'f accumulators \<Rightarrow> string \<Rightarrow> py_error + (string \<times> 'f)" where
  "average_entry ops acc brand =
     (case getitem (brand_ratings acc) brand of
        Inl e \<Rightarrow> Inl e
      | Inr rating_sum \<Rightarrow>
          (case getitem (brand_counts acc) brand of
             Inl e \<Rightarrow> Inl e
           | Inr n \<Rightarrow>
               if n = 0 then Inl ZeroDivisionError else Inr (brand, fdiv ops rating_sum n)))"

text \<open>A list comprehension whose element expression may raise.\<close>

fun comprehension :: "('a \<Rightarrow> py_error + 'b) \<Rightarrow> 'a list \<Rightarrow> py_error + 'b list" where
  "comprehension f [] = Inr []"
| "comprehension f (x # xs) =
     (case f x of
        Inl e \<Rightarrow> Inl e
      | Inr y \<Rightarrow> (case comprehension f xs of Inl e \<Rightarrow> Inl e | Inr ys \<Rightarrow> Inr (y # ys)))"

text \<open>The function: the lines written to stderr, and the sorted list or the exception.\<close>

definition calculate_average_rating ::
  "'f float_ops \<Rightarrow> row list \<Rightarrow> string list \<times> (py_error + (string \<times> 'f) list)" where
  "calculate_average_rating ops records =
     (case for_each_record ops \<lparr>brand_ratings = [], brand_counts = [], warnings = []\<rparr> records of
        (acc, Some e) \<Rightarrow> (warnings acc, Inl e)
      | (acc, None) \<Rightarrow>
          (case comprehension (average_entry ops acc) (map fst (brand_ratings acc)) of
             Inl e \<Rightarrow> (warnings acc, Inl e)
           | Inr average_ratings \<Rightarrow>
               (warnings acc, Inr (rearrange (sort_by_rating ops) average_ratings))))"

subsection \<open>\<^verbatim>\<open>generate_report\<close>\<close>

text \<open>
  \<^verbatim>\<open>tabulate\<close> belongs to a package outside the script and is a parameter:
  \<open>tabulate table_data headers\<close> is the text that
  \<^verbatim>\<open>tabulate(table_data, headers=headers, tablefmt="grid")\<close> returns. The result of
  \<open>generate_report\<close> is what it prints to stdout, and its outcome.
\<close>

definition generate_report ::
  "'f float_ops \<Rightarrow> (string list list \<Rightarrow> string list \<Rightarrow> string) \<Rightarrow> string \<Rightarrow> (string \<times> 'f) list
     \<Rightarrow> string list \<times> (py_error + unit)" where
  "generate_report ops tabulate report_type data =
     (if report_type \<noteq> ''average-rating''
      then ([], Inl (ValueError (unsupported_text report_type)))
      else let table_data = map (\<lambda>(brand, avg_rating). [brand, fmt1 ops avg_rating]) data;
               headers = [''Brand'', ''Rating'']
           in ([tabulate table_data headers], Inr ()))"

subsection \<open>\<^verbatim>\<open>read_csv_files\<close>\<close>

text \<open>
  \<^verbatim>\<open>csv.DictReader\<close> yields one dictionary for each data line. Its keys are the names
  of the header line, and \<^verbatim>\<open>None\<close> when the line has more fields than the header; its
  values are the fields of the line, \<^verbatim>\<open>None\<close> for a field the line lacks, and the list
  of the surplus fields under the key \<^verbatim>\<open>None\<close>. The annotation of \<open>read_csv_files\<close>
  promises \<^verbatim>\<open>List[Dict[str, str]]\<close>; a data line shorter or longer than the header makes
  a row that is not of that type.
\<close>

datatype csv_value = Text string | NoValue | Surplus "string list"

type_synonym csv_row = "(string option, csv_value) dict"

text \<open>
  What opening and reading one path does is the environment's part: either \<^verbatim>\<open>open\<close> or
  the reading raises an exception, or the file is read to its end and has yielded rows.
  The rows read before an exception are lost with \<open>all_records\<close> whichever way the
  exception goes, and are left out.
\<close>

datatype reading = Raises py_error | Rows "csv_row list"

type_synonym file_system = "string \<Rightarrow> reading"

text \<open>
  The two \<^verbatim>\<open>except\<close> clauses of lines 35 to 40, for an exception raised under the
  \<^verbatim>\<open>try\<close> for the path \<open>file_path\<close>: the line written to stderr and the exception that
  goes on. \<^verbatim>\<open>sys.exit(1)\<close> raises \<^verbatim>\<open>SystemExit(1)\<close>; an exception of another class is not
  caught.
\<close>

definition except_clauses :: "string \<Rightarrow> py_error \<Rightarrow> string list \<times> py_error" where
  "except_clauses file_path e =
     (case e of
        FileNotFoundError m \<Rightarrow> ([not_found_text file_path], SystemExit 1)
      | CsvError m \<Rightarrow> ([csv_error_text file_path m], SystemExit 1)
      | _ \<Rightarrow> ([], e))"

text \<open>
  The loop of lines 29 to 40, with \<open>all_records\<close> as its variable. The result is the
  paths passed to \<^verbatim>\<open>open\<close>, the lines written to stderr and the outcome.
\<close>

fun for_each_file ::
  "file_system \<Rightarrow> csv_row list \<Rightarrow> string list
     \<Rightarrow> string list \<times> string list \<times> (py_error + csv_row list)" where
  "for_each_file fs all_records [] = ([], [], Inr all_records)"
| "for_each_file fs all_records (file_path # file_paths) =
     (case fs file_path of
        Raises e \<Rightarrow>
          (case except_clauses file_path e of (err, e') \<Rightarrow> ([file_path], err, Inl e'))
      | Rows rows \<Rightarrow>
          (case for_each_file fs (all_records @ rows) file_paths of
             (opened, err, result) \<Rightarrow> (file_path # opened, err, result)))"

definition read_csv_files ::
  "file_system \<Rightarrow> string list \<Rightarrow> string list \<times> string list \<times> (py_error + csv_row list)" where
  "read_csv_files fs file_paths = for_each_file fs [] file_paths"

subsection \<open>What the aggregation is meant to compute\<close>

text \<open>
  The specification speaks of the successfully parsed ratings of the records of a brand,
  of their mean, and of the order in which brands are first met. These are defined here
  on the list of records, apart from the loop.
\<close>

text \<open>The brand and the parsed rating of a record that has both fields and whose rating parses.\<close>

definition contribution :: "'f float_ops \<Rightarrow> row \<Rightarrow> (string \<times> 'f) option" where
  "contribution ops record =
     (case map_of record ''brand'' of
        None \<Rightarrow> None
      | Some brand \<Rightarrow>
          (case map_of record ''rating'' of
             None \<Rightarrow> None
           | Some raw \<Rightarrow>
               (case parse_float ops raw of
                  None \<Rightarrow> None
                | Some rating \<Rightarrow> Some (brand, rating))))"

definition parsed_ratings :: "'f float_ops \<Rightarrow> row list \<Rightarrow> (string \<times> 'f) list" where
  "parsed_ratings ops records = List.map_filter (contribution ops) records"

definition ratings_of_brand :: "'f float_ops \<Rightarrow> row list \<Rightarrow> string \<Rightarrow> 'f list" where
  "ratings_of_brand ops records brand =
     map snd (filter (\<lambda>p. fst p = brand) (parsed_ratings ops records))"

text \<open>The sum from \<^verbatim>\<open>0.0\<close>, in the order of the records, divided by the count.\<close>

definition mean :: "'f float_ops \<Rightarrow> 'f list \<Rightarrow> 'f" where
  "mean ops vs = fdiv ops (foldl (fadd ops) (fzero ops) vs) (int (length vs))"

text \<open>The elements of a list in the order of their first occurrences.\<close>

definition first_seen :: "'a list \<Rightarrow> 'a list" where
  "first_seen xs = rev (remdups (rev xs))"

text \<open>The warning a record causes: its rating is there and does not parse.\<close>

definition warning_of :: "'f float_ops \<Rightarrow> row \<Rightarrow> string option" where
  "warning_of ops record =
     (case (map_of record ''brand'', map_of record ''rating'', map_of record ''name'') of
        (Some brand, Some raw, Some name) \<Rightarrow>
          (case parse_float ops raw of
             None \<Rightarrow> Some (warning_text raw name brand)
           | Some rating \<Rightarrow> None)
      | _ \<Rightarrow> None)"

text \<open>
  The fields the loop reads. A record of the data model has all of \<open>name\<close>, \<open>brand\<close>
  and \<open>rating\<close>; the loop itself needs \<open>name\<close> only when the rating does not parse.
\<close>

definition has_fields :: "row \<Rightarrow> bool" where
  "has_fields record \<longleftrightarrow>
     contains record ''name'' \<and> contains record ''brand'' \<and> contains record ''rating''"

definition readable :: "'f float_ops \<Rightarrow> row \<Rightarrow> bool" where
  "readable ops record \<longleftrightarrow>
     (case map_of record ''brand'' of
        None \<Rightarrow> False
      | Some brand \<Rightarrow>
          (case map_of record ''rating'' of
             None \<Rightarrow> False
           | Some raw \<Rightarrow> parse_float ops raw \<noteq> None \<or> contains record ''name''))"

text \<open>
  The state of the loop after a list of records, written with these notions: both
  dictionaries have the brands in the order in which they were first met, with the sum
  and the number of the parsed ratings of each.
\<close>

definition rating_sum_of :: "'f float_ops \<Rightarrow> row list \<Rightarrow> string \<Rightarrow> 'f" where
  "rating_sum_of ops records brand =
     foldl (fadd ops) (fzero ops) (ratings_of_brand ops records brand)"

definition count_of :: "'f float_ops \<Rightarrow> row list \<Rightarrow> string \<Rightarrow> int" where
  "count_of ops records brand = int (length (ratings_of_brand ops records brand))"

definition brands_seen :: "'f float_ops \<Rightarrow> row list \<Rightarrow> string list" where
  "brands_seen ops records = first_seen (map fst (parsed_ratings ops records))"

definition accumulated :: "'f float_ops \<Rightarrow> row list \<Rightarrow> 'f accumulators" where
  "accumulated ops records =
     \<lparr>brand_ratings = map (\<lambda>b. (b, rating_sum_of ops records b)) (brands_seen ops records),
      brand_counts = map (\<lambda>b. (b, count_of ops records b)) (brands_seen ops records),
      warnings = List.map_filter (warning_of ops) records\<rparr>"

definition averages :: "'f float_ops \<Rightarrow> row list \<Rightarrow> (string \<times> 'f) list" where
  "averages ops records =
     map (\<lambda>brand. (brand, mean ops (ratings_of_brand ops records brand)))
       (brands_seen ops records)"

subsection \<open>A structure of floats for evaluation\<close>

text \<open>
  To evaluate the functions on concrete records, the parameter is instantiated with
  exact arithmetic: the rationals with the two infinities and NaN, compared and added as
  IEEE floats are, without rounding. It agrees with binary64 wherever binary64 computes
  without rounding. Its \<^verbatim>\<open>float()\<close> accepts, between optional whitespace, an optional
  sign followed by \<^verbatim>\<open>inf\<close>, \<^verbatim>\<open>infinity\<close> or \<^verbatim>\<open>nan\<close> in any case, or by a decimal
  numeral with an optional fraction and an optional exponent.
\<close>

datatype exact_float = Finite rat | PosInf | NegInf | NaN

fun exact_add :: "exact_float \<Rightarrow> exact_float \<Rightarrow> exact_float" where
  "exact_add NaN y = NaN"
| "exact_add x NaN = NaN"
| "exact_add (Finite a) (Finite b) = Finite (a + b)"
| "exact_add PosInf NegInf = NaN"
| "exact_add NegInf PosInf = NaN"
| "exact_add PosInf y = PosInf"
| "exact_add x PosInf = PosInf"
| "exact_add NegInf y = NegInf"
| "exact_add x NegInf = NegInf"

fun exact_div :: "exact_float \<Rightarrow> int \<Rightarrow> exact_float" where
  "exact_div (Finite a) n = Finite (a / of_int n)"
| "exact_div PosInf n = (if 0 < n then PosInf else NegInf)"
| "exact_div NegInf n = (if 0 < n then NegInf else PosInf)"
| "exact_div NaN n = NaN"

fun exact_lt :: "exact_float \<Rightarrow> exact_float \<Rightarrow> bool" where
  "exact_lt NaN y = False"
| "exact_lt x NaN = False"
| "exact_lt (Finite a) (Finite b) = (a < b)"
| "exact_lt PosInf y = False"
| "exact_lt x PosInf = True"
| "exact_lt NegInf NegInf = False"
| "exact_lt NegInf y = True"
| "exact_lt x NegInf = False"

fun exact_le :: "exact_float \<Rightarrow> exact_float \<Rightarrow> bool" where
  "exact_le NaN y = False"
| "exact_le x NaN = False"
| "exact_le (Finite a) (Finite b) = (a \<le> b)"
| "exact_le x PosInf = True"
| "exact_le PosInf y = False"
| "exact_le NegInf y = True"
| "exact_le x NegInf = False"

definition is_space :: "char \<Rightarrow> bool" where
  "is_space c \<longleftrightarrow> c \<in> set [CHR '' '', CHR 0x09, CHR 0x0A, CHR 0x0B, CHR 0x0C, CHR 0x0D]"

definition strip :: "string \<Rightarrow> string" where
  "strip s = rev (dropWhile is_space (rev (dropWhile is_space s)))"

definition is_digit :: "char \<Rightarrow> bool" where
  "is_digit c \<longleftrightarrow> (48::nat) \<le> of_char c \<and> of_char c \<le> (57::nat)"

definition lower :: "char \<Rightarrow> char" where
  "lower c = (if (65::nat) \<le> of_char c \<and> of_char c \<le> (90::nat)
              then char_of (of_char c + (32::nat)) else c)"

definition nat_of_digits :: "string \<Rightarrow> nat" where
  "nat_of_digits ds = foldl (\<lambda>n c. 10 * n + (of_char c - 48)) 0 ds"

text \<open>An optional sign: whether it is a minus, and the rest.\<close>

fun split_sign :: "string \<Rightarrow> bool \<times> string" where
  "split_sign [] = (False, [])"
| "split_sign (c # s) =
     (if c = CHR ''-'' then (True, s) else if c = CHR ''+'' then (False, s) else (False, c # s))"

text \<open>The exponent part, empty or \<^verbatim>\<open>e\<close> with a signed numeral.\<close>

fun parse_exponent :: "string \<Rightarrow> int option" where
  "parse_exponent [] = Some 0"
| "parse_exponent (c # s) =
     (if lower c = CHR ''e'' then
        (case split_sign s of
           (negative, ds) \<Rightarrow>
             if ds \<noteq> [] \<and> list_all is_digit ds
             then Some (if negative then - int (nat_of_digits ds) else int (nat_of_digits ds))
             else None)
      else None)"

definition pow10 :: "int \<Rightarrow> rat" where
  "pow10 e = (if 0 \<le> e then 10 ^ nat e else 1 / 10 ^ nat (- e))"

definition parse_decimal :: "string \<Rightarrow> rat option" where
  "parse_decimal s =
     (let int_part = takeWhile is_digit s;
          rest = dropWhile is_digit s;
          (frac_part, rest') =
            (case rest of
               [] \<Rightarrow> ([], [])
             | c # t \<Rightarrow> if c = CHR ''.'' then (takeWhile is_digit t, dropWhile is_digit t)
                        else ([], rest))
      in if int_part = [] \<and> frac_part = [] then None
         else (case parse_exponent rest' of
                 None \<Rightarrow> None
               | Some e \<Rightarrow>
                   Some (of_nat (nat_of_digits (int_part @ frac_part))
                           * pow10 (e - int (length frac_part)))))"

definition exact_parse :: "string \<Rightarrow> exact_float option" where
  "exact_parse s =
     (case split_sign (strip s) of
        (negative, body) \<Rightarrow>
          if map lower body = ''inf'' \<or> map lower body = ''infinity''
          then Some (if negative then NegInf else PosInf)
          else if map lower body = ''nan'' then Some NaN
          else (case parse_decimal body of
                  None \<Rightarrow> None
                | Some q \<Rightarrow> Some (Finite (if negative then - q else q))))"

fun show_nat :: "nat \<Rightarrow> string" where
  "show_nat n =
     (if n < 10 then [char_of (48 + n)] else show_nat (n div 10) @ [char_of (48 + n mod 10)])"

text \<open>One digit after the point, exact halves going to the even digit.\<close>

definition round_half_even :: "rat \<Rightarrow> nat" where
  "round_half_even q =
     (let f = \<lfloor>q\<rfloor>; d = q - of_int f
      in nat (if d < 1 / 2 then f else if 1 / 2 < d then f + 1
              else if even f then f else f + 1))"

fun exact_fmt1 :: "exact_float \<Rightarrow> string" where
  "exact_fmt1 (Finite q) =
     (let n = round_half_even (\<bar>q\<bar> * 10)
      in (if q < 0 then ''-'' else '''') @ show_nat (n div 10) @ ''.'' @ show_nat (n mod 10))"
| "exact_fmt1 PosInf = ''inf''"
| "exact_fmt1 NegInf = ''-inf''"
| "exact_fmt1 NaN = ''nan''"

text \<open>
  The sort of the structure is the algorithm of CPython 3.11 for a list of fewer than 64
  elements, which is all it is applied to below. With \<^verbatim>\<open>reverse=True\<close> the list is
  reversed, sorted and reversed again. The sort finds the run at the head of the list,
  either strictly descending, and then reversed, or else running on until an element is
  less than the one before it (\<^verbatim>\<open>count_run\<close>), and puts the remaining elements into the
  run one by one, each at the place a binary search finds for it (\<^verbatim>\<open>binarysort\<close>).
  The only comparison is \<^verbatim>\<open><\<close> on the keys.
\<close>

fun ascending_run :: "('a \<Rightarrow> 'a \<Rightarrow> bool) \<Rightarrow> 'a list \<Rightarrow> nat" where
  "ascending_run lt (x # y # ys) = (if lt y x then 1 else 1 + ascending_run lt (y # ys))"
| "ascending_run lt xs = length xs"

fun descending_run :: "('a \<Rightarrow> 'a \<Rightarrow> bool) \<Rightarrow> 'a list \<Rightarrow> nat" where
  "descending_run lt (x # y # ys) = (if lt y x then 1 + descending_run lt (y # ys) else 1)"
| "descending_run lt xs = length xs"

text \<open>The length of the run at the head, and whether it is descending.\<close>

definition count_run :: "('a \<Rightarrow> 'a \<Rightarrow> bool) \<Rightarrow> 'a list \<Rightarrow> nat \<times> bool" where
  "count_run lt xs =
     (case xs of
        x # y # ys \<Rightarrow>
          if lt y x then (descending_run lt xs, True) else (ascending_run lt xs, False)
      | _ \<Rightarrow> (length xs, False))"

text \<open>
  The binary search of \<^verbatim>\<open>binarysort\<close> between the positions \<open>l\<close> and \<open>r\<close> of the run:
  the pivot goes left of an element it is less than, right of any other.
\<close>

function bisect :: "('a \<Rightarrow> 'a \<Rightarrow> bool) \<Rightarrow> 'a \<Rightarrow> 'a list \<Rightarrow> nat \<Rightarrow> nat \<Rightarrow> nat" where
  "bisect lt pivot run l r =
     (if l < r
      then let p = l + (r - l) div 2
           in if lt pivot (run ! p) then bisect lt pivot run l p
              else bisect lt pivot run (p + 1) r
      else l)"
  by pat_completeness auto
termination
  by (relation "measure (\<lambda>(lt, pivot, run, l, r). r - l)") auto

declare bisect.simps [simp del]

definition binarysort :: "('a \<Rightarrow> 'a \<Rightarrow> bool) \<Rightarrow> 'a list \<Rightarrow> 'a list \<Rightarrow> 'a list" where
  "binarysort lt run rest =
     foldl (\<lambda>run pivot.
        let l = bisect lt pivot run 0 (length run) in take l run @ pivot # drop l run) run rest"

definition short_sort :: "('a \<Rightarrow> 'a \<Rightarrow> bool) \<Rightarrow> 'a list \<Rightarrow> 'a list" where
  "short_sort lt xs =
     (if length xs < 2 then xs
      else case count_run lt xs of
             (n, descending) \<Rightarrow>
               binarysort lt (if descending then rev (take n xs) else take n xs) (drop n xs))"

definition sort_reverse :: "('k \<Rightarrow> 'k \<Rightarrow> bool) \<Rightarrow> ('a \<Rightarrow> 'k) \<Rightarrow> 'a list \<Rightarrow> 'a list" where
  "sort_reverse lt key xs = rev (short_sort (\<lambda>x y. lt (key x) (key y)) (rev xs))"

lift_definition exact_sort :: "(string \<times> exact_float) rearrangement"
  is "sort_reverse exact_lt snd"
proof -
  fix xs :: "(string \<times> exact_float) list"
  have parts: "mset (take n ys) + mset (drop n ys) = mset ys"
    for n and ys :: "(string \<times> exact_float) list"
    using mset_append [of "take n ys" "drop n ys"] by simp
  have insertion: "mset (binarysort lt run rest) = mset run + mset rest"
    for lt and run rest :: "(string \<times> exact_float) list"
    unfolding binarysort_def
    by (induction rest arbitrary: run) (simp_all add: Let_def parts)
  have "mset (short_sort lt ys) = mset ys"
    for lt and ys :: "(string \<times> exact_float) list"
    by (cases "count_run lt ys") (simp add: short_sort_def insertion parts)
  then show "mset (sort_reverse exact_lt snd xs) = mset xs"
    by (simp add: sort_reverse_def)
qed

definition exact_ops :: "exact_float float_ops" where
  "exact_ops =
     \<lparr>parse_float = exact_parse, fzero = Finite 0, fadd = exact_add, fdiv = exact_div,
      fmt1 = exact_fmt1, sort_by_rating = exact_sort\<rparr>"

subsection \<open>Records and files of the test suite\<close>

text \<open>The inputs of \<^verbatim>\<open>tests.py\<close>, and a few more in their style.\<close>

definition product :: "string \<Rightarrow> string \<Rightarrow> string \<Rightarrow> string \<Rightarrow> row" where
  "product name brand price rating =
     [(''name'', name), (''brand'', brand), (''price'', price), (''rating'', rating)]"

definition records_normal :: "row list" where
  "records_normal =
     [product ''p1'' ''apple'' ''1000'' ''4.5'',
      product ''p2'' ''samsung'' ''900'' ''4.7'',
      product ''p3'' ''apple'' ''1100'' ''4.9'']"

definition records_invalid_rating :: "row list" where
  "records_invalid_rating =
     [product ''p1'' ''apple'' ''1000'' ''invalid'',
      product ''p2'' ''apple'' ''1100'' ''4.9'']"


text \<open>A rating that is not a number, and ratings \<^verbatim>\<open>float()\<close> accepts beyond plain decimals.\<close>

definition records_nan :: "row list" where
  "records_nan =
     [product ''p1'' ''a'' ''1'' ''nan'',
      product ''p2'' ''b'' ''2'' ''1.0'']"

definition records_nan_between :: "row list" where
  "records_nan_between =
     [product ''p1'' ''a'' ''1'' ''1.0'',
      product ''p2'' ''b'' ''2'' ''nan'',
      product ''p3'' ''c'' ''3'' ''2.0'']"

definition records_special :: "row list" where
  "records_special =
     [product ''p1'' ''a'' ''1'' ''inf'',
      product ''p2'' ''b'' ''2'' ''nan'',
      product ''p3'' ''c'' ''3'' ''1e2'',
      product ''p4'' ''d'' ''4'' '' 4.5 '']"

text \<open>A row without a \<open>brand\<close> column, after a complete one.\<close>

definition records_no_brand :: "row list" where
  "records_no_brand =
     [product ''p1'' ''apple'' ''1000'' ''4.5'',
      [(''name'', ''p2''), (''price'', ''900''), (''rating'', ''4.7'')]]"

text \<open>
  A file system with one readable file of one row, one file on which
  \<^verbatim>\<open>csv.DictReader\<close> raises \<^verbatim>\<open>csv.Error("CSV error")\<close> and one file that is not
  UTF-8, so that reading it raises \<^verbatim>\<open>UnicodeDecodeError\<close>; every other path is missing.
\<close>

definition files :: file_system where
  "files file_path =
     (if file_path = ''file1.csv''
      then Rows [[(Some ''name'', Text ''phone1''), (Some ''brand'', Text ''apple''),
                  (Some ''price'', Text ''1000''), (Some ''rating'', Text ''4.5'')]]
      else if file_path = ''bad.csv'' then Raises (CsvError ''CSV error'')
      else if file_path = ''latin1.csv''
      then Raises (UnicodeDecodeError ''invalid continuation byte'')
      else Raises (FileNotFoundError ''No such file or directory''))"

text \<open>A stand-in for \<^verbatim>\<open>tabulate\<close>: the cells of each line joined by a bar.\<close>

definition plain_table :: "string list list \<Rightarrow> string list \<Rightarrow> string" where
  "plain_table table_data headers =
     concat (map (\<lambda>line. concat (map (\<lambda>cell. cell @ ''|'') line) @ [CHR 0x0A])
       (headers # table_data))"

section \<open>Properties\<close>

subsection \<open>First occurrences\<close>

lemma remdups_snoc: "remdups (ys @ [x]) = filter (\<lambda>y. y \<noteq> x) (remdups ys) @ [x]"
  by (induction ys) auto

text \<open>The head of a list is met first; later occurrences of it are dropped.\<close>

lemma first_seen_Cons: "first_seen (x # xs) = x # filter (\<lambda>y. y \<noteq> x) (first_seen xs)"
  by (simp add: first_seen_def remdups_snoc rev_filter)

lemma first_seen_snoc:
  "first_seen (xs @ [x]) = (if x \<in> set xs then first_seen xs else first_seen xs @ [x])"
  by (simp add: first_seen_def)

lemma set_first_seen: "set (first_seen xs) = set xs"
  by (simp add: first_seen_def)

lemma distinct_first_seen: "distinct (first_seen xs)"
  by (simp add: first_seen_def)

subsection \<open>Dictionaries written as tables over their keys\<close>

lemma map_of_tabulated:
  "map_of (map (\<lambda>k. (k, f k)) ks) b = (if b \<in> set ks then Some (f b) else None)"
  by (induction ks) auto

lemma getitem_tabulated:
  "getitem (map (\<lambda>k. (k, f k)) ks) b = (if b \<in> set ks then Inr (f b) else Inl (KeyError b))"
  by (simp add: getitem_def map_of_tabulated)

lemma contains_tabulated: "contains (map (\<lambda>k. (k, f k)) ks) b = (b \<in> set ks)"
  by (simp add: contains_def comp_def)

lemma setitem_tabulated_new:
  "b \<notin> set ks \<Longrightarrow> setitem (map (\<lambda>k. (k, f k)) ks) b v = map (\<lambda>k. (k, (f(b := v)) k)) (ks @ [b])"
  by (induction ks) (auto simp: setitem_def)

lemma setitem_tabulated_old:
  "b \<in> set ks \<Longrightarrow> distinct ks \<Longrightarrow> setitem (map (\<lambda>k. (k, f k)) ks) b v = map (\<lambda>k. (k, (f(b := v)) k)) ks"
  by (induction ks) (auto simp: setitem_def)

subsection \<open>The loop over the records\<close>

text \<open>The loop on a list with one more record at its end.\<close>

lemma for_each_record_snoc:
  "for_each_record ops acc (rs @ [r]) =
     (case for_each_record ops acc rs of
        (acc', Some e) \<Rightarrow> (acc', Some e)
      | (acc', None) \<Rightarrow>
          (case process_record ops acc' r of
             Inl e \<Rightarrow> (acc', Some e)
           | Inr acc'' \<Rightarrow> (acc'', None)))"
  by (induction rs arbitrary: acc) (auto split: sum.splits)


lemma map_filter_append:
  "List.map_filter f (xs @ ys) = List.map_filter f xs @ List.map_filter f ys"
  by (simp add: List.map_filter_def)

lemma parsed_ratings_snoc:
  "parsed_ratings ops (rs @ [r]) =
     parsed_ratings ops rs @ (case contribution ops r of None \<Rightarrow> [] | Some p \<Rightarrow> [p])"
  by (simp add: parsed_ratings_def map_filter_append List.map_filter_def split: option.splits)

lemma ratings_of_brand_snoc:
  "ratings_of_brand ops (rs @ [r]) k =
     ratings_of_brand ops rs k @
       (case contribution ops r of None \<Rightarrow> [] | Some p \<Rightarrow> if fst p = k then [snd p] else [])"
  by (simp add: ratings_of_brand_def parsed_ratings_snoc split: option.splits)

lemma brands_seen_snoc:
  "brands_seen ops (rs @ [r]) =
     (case contribution ops r of
        None \<Rightarrow> brands_seen ops rs
      | Some p \<Rightarrow> if fst p \<in> set (brands_seen ops rs) then brands_seen ops rs
                  else brands_seen ops rs @ [fst p])"
  by (simp add: brands_seen_def parsed_ratings_snoc first_seen_snoc set_first_seen
      split: option.splits)

lemma distinct_brands_seen: "distinct (brands_seen ops rs)"
  by (simp add: brands_seen_def distinct_first_seen)

lemma ratings_of_unseen:
  "b \<notin> set (brands_seen ops rs) \<Longrightarrow> ratings_of_brand ops rs b = []"
  by (auto simp: brands_seen_def set_first_seen ratings_of_brand_def filter_empty_conv)

lemma ratings_of_seen:
  "b \<in> set (brands_seen ops rs) \<Longrightarrow> ratings_of_brand ops rs b \<noteq> []"
  by (auto simp: brands_seen_def set_first_seen ratings_of_brand_def filter_empty_conv)

lemma warnings_snoc:
  "List.map_filter (warning_of ops) (rs @ [r]) =
     List.map_filter (warning_of ops) rs @ (case warning_of ops r of None \<Rightarrow> [] | Some w \<Rightarrow> [w])"
  by (simp add: map_filter_append List.map_filter_def split: option.splits)

lemma accumulated_skip:
  assumes "contribution ops r = None"
  shows "accumulated ops (rs @ [r]) =
    (accumulated ops rs)\<lparr>warnings := warnings (accumulated ops rs) @
       (case warning_of ops r of None \<Rightarrow> [] | Some w \<Rightarrow> [w])\<rparr>"
  using assms
  by (simp add: accumulated_def brands_seen_snoc rating_sum_of_def count_of_def
      ratings_of_brand_snoc warnings_snoc)

text \<open>Lines 65 to 69 on dictionaries that are tables.\<close>

lemma accumulate_tabulated:
  assumes "distinct ks"
  shows "accumulate ops
           \<lparr>brand_ratings = map (\<lambda>k. (k, F k)) ks, brand_counts = map (\<lambda>k. (k, C k)) ks,
            warnings = w\<rparr> b v =
         Inr \<lparr>brand_ratings =
                map (\<lambda>k. (k, if k = b then fadd ops (if b \<in> set ks then F b else fzero ops) v
                               else F k))
                  (if b \<in> set ks then ks else ks @ [b]),
              brand_counts =
                map (\<lambda>k. (k, if k = b then (if b \<in> set ks then C b else 0) + 1 else C k))
                  (if b \<in> set ks then ks else ks @ [b]),
              warnings = w\<rparr>"
proof (cases "b \<in> set ks")
  case True
  then show ?thesis
    using assms
    by (simp add: accumulate_def contains_tabulated getitem_tabulated setitem_tabulated_old
        fun_upd_def)
next
  case False
  have d: "distinct (ks @ [b])"
    using False assms by simp
  show ?thesis
    using False
    by (simp add: accumulate_def contains_tabulated getitem_tabulated setitem_tabulated_new
        setitem_tabulated_old [OF _ d] fun_upd_def del: map_append)
qed

lemma accumulate_accumulated:
  assumes "contribution ops r = Some (b, v)" and "warning_of ops r = None"
  shows "accumulate ops (accumulated ops rs) b v = Inr (accumulated ops (rs @ [r]))"
  using assms
  by (auto simp add: accumulated_def accumulate_tabulated distinct_brands_seen brands_seen_snoc
      warnings_snoc rating_sum_of_def count_of_def ratings_of_brand_snoc ratings_of_unseen)


lemma contains_map_of: "contains d k \<longleftrightarrow> map_of d k \<noteq> None"
  by (simp add: contains_def map_of_eq_None_iff)

text \<open>
  The invariant of the loop: after the records \<open>rs\<close>, all readable, the variables are
  \<open>accumulated ops rs\<close>.
\<close>

lemma process_record_readable:
  assumes "readable ops r"
  shows "process_record ops (accumulated ops rs) r = Inr (accumulated ops (rs @ [r]))"
proof -
  from assms obtain b raw where b: "map_of r ''brand'' = Some b"
    and raw: "map_of r ''rating'' = Some raw"
    and name: "parse_float ops raw \<noteq> None \<or> map_of r ''name'' \<noteq> None"
    by (auto simp: readable_def contains_map_of split: option.splits)
  show ?thesis
  proof (cases "parse_float ops raw")
    case None
    with name obtain n where n: "map_of r ''name'' = Some n" by auto
    have "contribution ops r = None"
      using b raw None by (simp add: contribution_def)
    moreover have "warning_of ops r = Some (warning_text raw n b)"
      using b raw n None by (simp add: warning_of_def)
    ultimately show ?thesis
      using b raw n None
      by (simp add: process_record_def getitem_def accumulated_skip)
  next
    case (Some v)
    have "contribution ops r = Some (b, v)"
      using b raw Some by (simp add: contribution_def)
    moreover have "warning_of ops r = None"
      using b raw Some by (simp add: warning_of_def split: option.splits)
    ultimately show ?thesis
      using b raw Some
      by (simp add: process_record_def getitem_def accumulate_accumulated)
  qed
qed

text \<open>Whatever the loop raises is a \<^verbatim>\<open>KeyError\<close>.\<close>

lemma accumulate_error: "accumulate ops acc b v = Inl e \<Longrightarrow> \<exists>k. e = KeyError k"
  by (auto simp: accumulate_def Let_def getitem_def split: sum.splits option.splits if_splits)

lemma process_record_error: "process_record ops acc r = Inl e \<Longrightarrow> \<exists>k. e = KeyError k"
  by (auto simp: process_record_def getitem_def dest: accumulate_error
      split: sum.splits option.splits)

lemma process_record_unreadable:
  "\<not> readable ops r \<Longrightarrow> \<exists>k. process_record ops acc r = Inl (KeyError k)"
  by (auto simp: readable_def process_record_def getitem_def contains_map_of
      split: option.splits)

lemma accumulated_Nil:
  "accumulated ops [] = \<lparr>brand_ratings = [], brand_counts = [], warnings = []\<rparr>"
  by (simp add: accumulated_def brands_seen_def parsed_ratings_def first_seen_def)

lemma for_each_record_readable:
  "list_all (readable ops) rs \<Longrightarrow>
     for_each_record ops (accumulated ops []) rs = (accumulated ops rs, None)"
proof (induction rs rule: rev_induct)
  case Nil
  show ?case by simp
next
  case (snoc r rs)
  then show ?case
    by (simp add: for_each_record_snoc process_record_readable)
qed

lemma for_each_record_error:
  "for_each_record ops acc rs = (acc', Some e) \<Longrightarrow> \<exists>k. e = KeyError k"
  by (induction rs arbitrary: acc) (auto dest: process_record_error split: sum.splits)

lemma for_each_record_unreadable:
  "\<not> list_all (readable ops) rs \<Longrightarrow> snd (for_each_record ops acc rs) \<noteq> None"
proof (induction rs arbitrary: acc)
  case Nil
  then show ?case by simp
next
  case (Cons r rs)
  show ?case
  proof (cases "readable ops r")
    case True
    with Cons show ?thesis by (auto split: sum.splits)
  next
    case False
    from process_record_unreadable [OF this, of acc] show ?thesis by auto
  qed
qed

subsection \<open>The comprehension and the result\<close>

lemma comprehension_total:
  "(\<And>x. x \<in> set xs \<Longrightarrow> f x = Inr (g x)) \<Longrightarrow> comprehension f xs = Inr (map g xs)"
  by (induction xs) auto

lemma average_entry_accumulated:
  assumes "b \<in> set (brands_seen ops rs)"
  shows "average_entry ops (accumulated ops rs) b = Inr (b, mean ops (ratings_of_brand ops rs b))"
  using assms ratings_of_seen [OF assms]
  by (simp add: average_entry_def accumulated_def getitem_tabulated count_of_def
      rating_sum_of_def mean_def)

lemma calculate_readable:
  assumes "list_all (readable ops) rs"
  shows "calculate_average_rating ops rs =
    (List.map_filter (warning_of ops) rs, Inr (rearrange (sort_by_rating ops) (averages ops rs)))"
proof -
  have loop: "for_each_record ops \<lparr>brand_ratings = [], brand_counts = [], warnings = []\<rparr> rs
      = (accumulated ops rs, None)"
    using for_each_record_readable [OF assms] by (simp add: accumulated_Nil)
  have keys: "map fst (brand_ratings (accumulated ops rs)) = brands_seen ops rs"
    by (simp add: accumulated_def comp_def)
  have "comprehension (average_entry ops (accumulated ops rs)) (brands_seen ops rs)
      = Inr (averages ops rs)"
    unfolding averages_def by (rule comprehension_total) (rule average_entry_accumulated)
  then show ?thesis
    by (simp add: calculate_average_rating_def loop keys) (simp add: accumulated_def)
qed

lemma calculate_unreadable:
  assumes "\<not> list_all (readable ops) rs"
  shows "\<exists>w k. calculate_average_rating ops rs = (w, Inl (KeyError k))"
proof -
  obtain acc e where loop:
    "for_each_record ops \<lparr>brand_ratings = [], brand_counts = [], warnings = []\<rparr> rs = (acc, e)"
    by (cases "for_each_record ops \<lparr>brand_ratings = [], brand_counts = [], warnings = []\<rparr> rs")
  with for_each_record_unreadable [OF assms, of "\<lparr>brand_ratings = [], brand_counts = [], warnings = []\<rparr>"]
  obtain e' where e: "e = Some e'" by auto
  with loop for_each_record_error obtain k where "e' = KeyError k" by blast
  with loop e show ?thesis
    by (simp add: calculate_average_rating_def)
qed

subsection \<open>The sort\<close>

text \<open>All that is known of the sort: the list it leaves is a permutation of the list it got.\<close>

lemma mset_rearrange: "mset (rearrange s xs) = mset xs"
  using rearrange [of s] by simp

lemma set_rearrange: "set (rearrange s xs) = set xs"
  using mset_rearrange [of s xs] by (metis set_mset_mset)

lemma rearrange_Nil: "rearrange s [] = []"
  using mset_rearrange [of s "[]"] by simp

lemma distinct_map_rearrange: "distinct (map f (rearrange s xs)) = distinct (map f xs)"
proof -
  have "mset (map f (rearrange s xs)) = mset (map f xs)"
    by (simp add: mset_rearrange)
  then show ?thesis by (rule mset_eq_imp_distinct_iff)
qed

subsection \<open>What a run that returns has computed\<close>

lemma calculate_returns:
  assumes "calculate_average_rating ops rs = (w, Inr out)"
  shows "list_all (readable ops) rs"
    and "out = rearrange (sort_by_rating ops) (averages ops rs)"
    and "w = List.map_filter (warning_of ops) rs"
proof -
  show r: "list_all (readable ops) rs"
    using assms calculate_unreadable [of ops rs] by auto
  show "out = rearrange (sort_by_rating ops) (averages ops rs)"
    and "w = List.map_filter (warning_of ops) rs"
    using assms calculate_readable [OF r] by simp_all
qed

text \<open>The function returns exactly when the loop can read every record.\<close>

lemma calculate_returns_iff:
  "(\<exists>w out. calculate_average_rating ops rs = (w, Inr out)) \<longleftrightarrow> list_all (readable ops) rs"
  using calculate_readable [of ops rs] calculate_returns(1) [of ops rs] by auto

lemma has_fields_readable: "has_fields r \<Longrightarrow> readable ops r"
  by (auto simp: has_fields_def readable_def contains_map_of split: option.splits)

lemma all_fields_readable: "list_all has_fields rs \<Longrightarrow> list_all (readable ops) rs"
  by (induction rs) (auto simp: has_fields_readable)

lemma set_averages:
  "(b, a) \<in> set (averages ops rs) \<longleftrightarrow>
     b \<in> set (brands_seen ops rs) \<and> a = mean ops (ratings_of_brand ops rs b)"
  by (auto simp: averages_def)

lemma map_fst_averages: "map fst (averages ops rs) = brands_seen ops rs"
  by (simp add: averages_def comp_def)

lemma brands_seen_iff: "b \<in> set (brands_seen ops rs) \<longleftrightarrow> ratings_of_brand ops rs b \<noteq> []"
  using ratings_of_seen [of b ops rs] ratings_of_unseen [of b ops rs] by blast

subsection \<open>Removing a record that contributes nothing\<close>

lemma parsed_ratings_append:
  "parsed_ratings ops (xs @ ys) = parsed_ratings ops xs @ parsed_ratings ops ys"
  by (simp add: parsed_ratings_def map_filter_append)

lemma parsed_ratings_Cons:
  "parsed_ratings ops (r # rs) =
     (case contribution ops r of None \<Rightarrow> [] | Some p \<Rightarrow> [p]) @ parsed_ratings ops rs"
  by (simp add: parsed_ratings_def List.map_filter_def split: option.splits)

lemma averages_cong:
  "parsed_ratings ops xs = parsed_ratings ops ys \<Longrightarrow> averages ops xs = averages ops ys"
  by (simp add: averages_def brands_seen_def ratings_of_brand_def)

lemma warnings_Cons:
  "List.map_filter (warning_of ops) (r # rs) =
     (case warning_of ops r of None \<Rightarrow> [] | Some w \<Rightarrow> [w]) @ List.map_filter (warning_of ops) rs"
  by (simp add: List.map_filter_def split: option.splits)

subsection \<open>The brands of the output, and the exceptions\<close>

lemma output_brands:
  assumes "calculate_average_rating ops rs = (w, Inr out)"
  shows "distinct (map fst out)"
    and "set out = set (averages ops rs)"
proof -
  have out: "out = rearrange (sort_by_rating ops) (averages ops rs)"
    by (rule calculate_returns(2) [OF assms])
  show "distinct (map fst out)"
    by (simp add: out distinct_map_rearrange map_fst_averages distinct_brands_seen)
  show "set out = set (averages ops rs)"
    by (simp add: out set_rearrange)
qed


lemma calculate_outcome:
  "snd (calculate_average_rating ops rs) = Inl e \<Longrightarrow> \<exists>k. e = KeyError k"
  using calculate_unreadable [of ops rs] calculate_readable [of ops rs]
  by (cases "list_all (readable ops) rs") auto

subsection \<open>The loop over the files\<close>




lemma for_each_file_stops:
  assumes "fs p = Raises e"
    and "\<forall>q \<in> set before. \<exists>rows. fs q = Rows rows"
  shows "for_each_file fs acc (before @ p # after) =
    (before @ [p], fst (except_clauses p e), Inl (snd (except_clauses p e)))"
  using assms(2)
proof (induction before arbitrary: acc)
  case Nil
  show ?case using assms(1) by (simp split: prod.splits)
next
  case (Cons q before)
  from Cons.prems obtain rows where "fs q = Rows rows" by auto
  moreover have "\<forall>q \<in> set before. \<exists>rows. fs q = Rows rows"
    using Cons.prems by simp
  ultimately show ?case
    using Cons.IH by simp
qed

section \<open>The claims\<close>

text \<open>
  Claim C1. Whenever \<open>calculate_average_rating\<close> returns a list, the average of every
  pair in it is the mean of the parsed ratings of the records of that brand, and of
  nothing else: their sum from \<^verbatim>\<open>0.0\<close> in the order of the records, divided by their
  number. The ratings that count are those of the records whose \<open>brand\<close> field is this
  brand and whose \<open>rating\<close> field \<^verbatim>\<open>float()\<close> accepts.
\<close>

theorem average_is_mean_of_parsed_ratings:
  assumes "calculate_average_rating ops records = (w, Inr out)"
    and "(brand, average_rating) \<in> set out"
  shows "average_rating = mean ops (ratings_of_brand ops records brand)"
  using assms(2) calculate_returns(2) [OF assms(1)]
  by (simp add: set_rearrange set_averages)

text \<open>
  The first test of the aggregation: \<open>apple\<close> has the ratings 4.5 and 4.9 and the
  average 4.7.
\<close>

theorem average_is_mean_of_parsed_ratings_witness:
  "calculate_average_rating exact_ops records_normal =
     ([], Inr [(''apple'', Finite (47 / 10)), (''samsung'', Finite (47 / 10))]) \<and>
   (''apple'', Finite (47 / 10)) \<in> set [(''apple'', Finite (47 / 10)), (''samsung'', Finite (47 / 10))] \<and>
   Finite (47 / 10) = mean exact_ops (ratings_of_brand exact_ops records_normal ''apple'') \<and>
   ratings_of_brand exact_ops records_normal ''apple'' = [Finite (9 / 2), Finite (49 / 10)]"
proof -
  have run: "calculate_average_rating exact_ops records_normal =
     ([], Inr [(''apple'', Finite (47 / 10)), (''samsung'', Finite (47 / 10))])"
    by code_simp
  have mem: "(''apple'', Finite (47 / 10)) \<in> set [(''apple'', Finite (47 / 10)), (''samsung'', Finite (47 / 10))]"
    by simp
  have rs: "ratings_of_brand exact_ops records_normal ''apple'' = [Finite (9 / 2), Finite (49 / 10)]"
    by code_simp
  from average_is_mean_of_parsed_ratings [OF run mem] run mem rs show ?thesis
    by blast
qed

text \<open>
  Claim C2. The docstring of \<^verbatim>\<open>calculate_average_rating\<close> promises the list sorted by
  rating, descending, and the claim is that in every output each average is \<^verbatim>\<open>>=\<close> the
  next. The code breaks it when an average is NaN, which the rating \<^verbatim>\<open>nan\<close> gives:
  \<^verbatim>\<open>float("nan")\<close> raises no \<^verbatim>\<open>ValueError\<close>, so the record is not skipped, and every
  comparison with NaN is false. Two runs of the code: for the ratings \<^verbatim>\<open>nan\<close> and
  \<^verbatim>\<open>1.0\<close> of two brands the sort leaves the entries where they are, and
  \<^verbatim>\<open>nan >= 1.0\<close> is false; for \<^verbatim>\<open>1.0\<close>, \<^verbatim>\<open>nan\<close> and \<^verbatim>\<open>2.0\<close> of three brands it does
  the same, so that the average 1.0 stands before the average 2.0.
\<close>

theorem nan_average_breaks_the_order:
  "calculate_average_rating exact_ops records_nan = ([], Inr [(''a'', NaN), (''b'', Finite 1)]) \<and>
   \<not> exact_le (snd ([(''a'', NaN), (''b'', Finite 1)] ! Suc 0))
        (snd ([(''a'', NaN), (''b'', Finite 1)] ! 0)) \<and>
   calculate_average_rating exact_ops records_nan_between =
     ([], Inr [(''a'', Finite 1), (''b'', NaN), (''c'', Finite 2)]) \<and>
   \<not> exact_le (snd ([(''a'', Finite 1), (''b'', NaN), (''c'', Finite 2)] ! Suc 0))
        (snd ([(''a'', Finite 1), (''b'', NaN), (''c'', Finite 2)] ! 0)) \<and>
   exact_lt (snd ([(''a'', Finite 1), (''b'', NaN), (''c'', Finite 2)] ! 0))
     (snd ([(''a'', Finite 1), (''b'', NaN), (''c'', Finite 2)] ! Suc (Suc 0)))"
proof -
  have first: "calculate_average_rating exact_ops records_nan =
      ([], Inr [(''a'', NaN), (''b'', Finite 1)])"
    by code_simp
  have second: "calculate_average_rating exact_ops records_nan_between =
      ([], Inr [(''a'', Finite 1), (''b'', NaN), (''c'', Finite 2)])"
    by code_simp
  from first second show ?thesis by simp
qed

text \<open>
  Claim C3. Take a sequence of records of the data model, each with the fields \<open>name\<close>,
  \<open>brand\<close> and \<open>rating\<close>, and in it a record whose rating \<^verbatim>\<open>float()\<close> rejects. Then
  \<open>calculate_average_rating\<close> returns a list; the list is the one it returns for the
  sequence without that record, so the record adds nothing to any sum or count, not even
  a zero, and all the others count as they do without it; and between the lines written
  for the records before and after it stands one warning, which reads, between the
  fixed words of the message, the raw rating, the name of the product and the brand.
\<close>

theorem unparsable_rating_is_skipped:
  assumes "list_all has_fields (before @ record # after)"
    and "map_of record ''name'' = Some name"
    and "map_of record ''brand'' = Some brand"
    and "map_of record ''rating'' = Some raw"
    and "parse_float ops raw = None"
  shows "\<exists>out. snd (calculate_average_rating ops (before @ record # after)) = Inr out \<and>
           snd (calculate_average_rating ops (before @ after)) = Inr out \<and>
           fst (calculate_average_rating ops (before @ record # after)) =
             fst (calculate_average_rating ops before) @
             [warning_head @ raw @ warning_product @ name @ warning_brand @ brand @
              warning_tail] @
             fst (calculate_average_rating ops after)"
proof -
  have all: "list_all (readable ops) (before @ record # after)"
    by (rule all_fields_readable [OF assms(1)])
  then have rest: "list_all (readable ops) (before @ after)"
    and b: "list_all (readable ops) before" and a: "list_all (readable ops) after"
    by simp_all
  have skip: "contribution ops record = None"
    using assms by (simp add: contribution_def)
  have warn: "warning_of ops record = Some (warning_text raw name brand)"
    using assms by (simp add: warning_of_def)
  have "parsed_ratings ops (before @ record # after) = parsed_ratings ops (before @ after)"
    by (simp add: parsed_ratings_append parsed_ratings_Cons skip)
  then have same: "averages ops (before @ record # after) = averages ops (before @ after)"
    by (rule averages_cong)
  show ?thesis
    by (simp add: calculate_readable [OF all] calculate_readable [OF rest]
        calculate_readable [OF b] calculate_readable [OF a] same map_filter_append
        warnings_Cons warn warning_text_def)
qed

text \<open>The test with the rating \<^verbatim>\<open>"invalid"\<close>: one warning, and the average of the other record.\<close>

theorem unparsable_rating_is_skipped_witness:
  "list_all has_fields ([] @ product ''p1'' ''apple'' ''1000'' ''invalid'' #
      [product ''p2'' ''apple'' ''1100'' ''4.9'']) \<and>
   parse_float exact_ops ''invalid'' = None \<and>
   calculate_average_rating exact_ops
     ([] @ product ''p1'' ''apple'' ''1000'' ''invalid'' # [product ''p2'' ''apple'' ''1100'' ''4.9'']) =
     ([warning_head @ ''invalid'' @ warning_product @ ''p1'' @ warning_brand @ ''apple'' @
       warning_tail], Inr [(''apple'', Finite (49 / 10))]) \<and>
   calculate_average_rating exact_ops ([] @ [product ''p2'' ''apple'' ''1100'' ''4.9'']) =
     ([], Inr [(''apple'', Finite (49 / 10))])"
proof -
  have fields: "list_all has_fields ([] @ product ''p1'' ''apple'' ''1000'' ''invalid'' #
      [product ''p2'' ''apple'' ''1100'' ''4.9''])"
    by (simp add: has_fields_def contains_def product_def)
  have name: "map_of (product ''p1'' ''apple'' ''1000'' ''invalid'') ''name'' = Some ''p1''"
    and brand: "map_of (product ''p1'' ''apple'' ''1000'' ''invalid'') ''brand'' = Some ''apple''"
    and raw: "map_of (product ''p1'' ''apple'' ''1000'' ''invalid'') ''rating'' = Some ''invalid''"
    by (simp_all add: product_def)
  have fails: "parse_float exact_ops ''invalid'' = None"
    by code_simp
  have without: "calculate_average_rating exact_ops ([] @ [product ''p2'' ''apple'' ''1100'' ''4.9'']) =
     ([], Inr [(''apple'', Finite (49 / 10))])"
    by code_simp
  have before: "fst (calculate_average_rating exact_ops []) = []"
    by code_simp
  have after: "fst (calculate_average_rating exact_ops [product ''p2'' ''apple'' ''1100'' ''4.9'']) = []"
    using without by simp
  from unparsable_rating_is_skipped [OF fields name brand raw fails]
  have "calculate_average_rating exact_ops
     ([] @ product ''p1'' ''apple'' ''1000'' ''invalid'' # [product ''p2'' ''apple'' ''1100'' ''4.9'']) =
     ([warning_head @ ''invalid'' @ warning_product @ ''p1'' @ warning_brand @ ''apple'' @
       warning_tail], Inr [(''apple'', Finite (49 / 10))])"
    using without by (auto simp: prod_eq_iff before after)
  with fields fails without show ?thesis by blast
qed




text \<open>
  Claim C5, amended. The claim is that for every sequence of paths with a missing file,
  \<open>read_csv_files\<close> fails at the first missing one, writes the error that names it and
  exits with status 1, returning no list and reading no later file. It holds when every
  file before the missing one is read to its end, without an exception: then the paths
  opened are those up to the missing one, stderr has one line, the words of the message
  followed by the missing path, and the outcome is \<^verbatim>\<open>SystemExit(1)\<close> in place of a list.
\<close>

theorem missing_file_is_fatal:
  assumes "fs missing = Raises (FileNotFoundError message)"
    and "\<forall>p \<in> set before. \<exists>rows. fs p = Rows rows"
  shows "read_csv_files fs (before @ missing # after) =
    (before @ [missing], [not_found_head @ missing], Inl (SystemExit 1))"
  unfolding read_csv_files_def
  using for_each_file_stops [OF assms, of "[]" after]
  by (simp add: except_clauses_def not_found_text_def)

text \<open>A readable file, then a missing one, then a file that is never opened.\<close>

theorem missing_file_is_fatal_witness:
  "files ''nonexistent.csv'' = Raises (FileNotFoundError ''No such file or directory'') \<and>
   files ''file1.csv'' =
     Rows [[(Some ''name'', Text ''phone1''), (Some ''brand'', Text ''apple''),
            (Some ''price'', Text ''1000''), (Some ''rating'', Text ''4.5'')]] \<and>
   read_csv_files files ([''file1.csv''] @ ''nonexistent.csv'' # [''file1.csv'']) =
     ([''file1.csv''] @ [''nonexistent.csv''], [not_found_head @ ''nonexistent.csv''],
      Inl (SystemExit 1))"
proof -
  have missing: "files ''nonexistent.csv'' = Raises (FileNotFoundError ''No such file or directory'')"
    by (simp add: files_def)
  have first: "files ''file1.csv'' =
     Rows [[(Some ''name'', Text ''phone1''), (Some ''brand'', Text ''apple''),
            (Some ''price'', Text ''1000''), (Some ''rating'', Text ''4.5'')]]"
    by (simp add: files_def)
  then have before: "\<forall>p \<in> set [''file1.csv'']. \<exists>rows. files p = Rows rows"
    by simp
  from missing_file_is_fatal [OF missing before, of "[''file1.csv'']"] missing first
  show ?thesis by blast
qed

text \<open>
  As stated, for every sequence with a missing path, the claim fails: when
  \<^verbatim>\<open>csv.DictReader\<close> raises \<^verbatim>\<open>csv.Error\<close> on a file before the missing one, the run
  ends there, with the message of that clause about that file, and the missing file is
  never opened nor named.
\<close>

theorem missing_file_is_fatal_counterexample:
  "files ''nonexistent.csv'' = Raises (FileNotFoundError ''No such file or directory'') \<and>
   read_csv_files files [''bad.csv'', ''nonexistent.csv''] =
     ([''bad.csv''], [csv_error_head @ ''bad.csv'' @ '': '' @ ''CSV error''],
      Inl (SystemExit 1)) \<and>
   csv_error_head @ ''bad.csv'' @ '': '' @ ''CSV error'' \<noteq>
     not_found_head @ ''nonexistent.csv'' \<and>
   [''bad.csv''] \<noteq> [''bad.csv'', ''nonexistent.csv'']"
  by (simp add: read_csv_files_def files_def except_clauses_def csv_error_text_def
      csv_error_head_def not_found_head_def)

text \<open>
  Claim C6. \<open>calculate_average_rating\<close> never raises \<^verbatim>\<open>ZeroDivisionError\<close>. When it
  returns a list, no brand occurs in it twice; a brand occurs in it exactly when at
  least one record of that brand has a rating that parses, so a brand whose ratings all
  fail to parse is absent; and the divisor of every average is the number of those
  ratings.
\<close>

theorem brands_unique_and_counted:
  "snd (calculate_average_rating ops records) \<noteq> Inl ZeroDivisionError \<and>
   (calculate_average_rating ops records = (w, Inr out) \<longrightarrow>
      distinct (map fst out) \<and>
      (\<forall>brand. brand \<in> set (map fst out) \<longleftrightarrow> 1 \<le> length (ratings_of_brand ops records brand)) \<and>
      (\<forall>brand average_rating. (brand, average_rating) \<in> set out \<longrightarrow>
         average_rating =
           fdiv ops (foldl (fadd ops) (fzero ops) (ratings_of_brand ops records brand))
             (int (length (ratings_of_brand ops records brand)))))"
proof -
  have never: "snd (calculate_average_rating ops records) \<noteq> Inl ZeroDivisionError"
    using calculate_outcome [of ops records ZeroDivisionError] by auto
  have returned: "distinct (map fst out) \<and>
      (\<forall>brand. brand \<in> set (map fst out) \<longleftrightarrow> 1 \<le> length (ratings_of_brand ops records brand)) \<and>
      (\<forall>brand average_rating. (brand, average_rating) \<in> set out \<longrightarrow>
         average_rating =
           fdiv ops (foldl (fadd ops) (fzero ops) (ratings_of_brand ops records brand))
             (int (length (ratings_of_brand ops records brand))))"
    if run: "calculate_average_rating ops records = (w, Inr out)"
  proof -
    have "set (map fst out) = set (brands_seen ops records)"
      using output_brands(2) [OF run] map_fst_averages [of ops records]
      by (metis set_map)
    then have "brand \<in> set (map fst out) \<longleftrightarrow> 1 \<le> length (ratings_of_brand ops records brand)"
      for brand
      by (simp add: brands_seen_iff Suc_le_eq)
    moreover have "average_rating =
           fdiv ops (foldl (fadd ops) (fzero ops) (ratings_of_brand ops records brand))
             (int (length (ratings_of_brand ops records brand)))"
      if "(brand, average_rating) \<in> set out" for brand average_rating
      using that output_brands(2) [OF run] by (simp add: set_averages mean_def)
    ultimately show ?thesis
      using output_brands(1) [OF run] by blast
  qed
  from never returned show ?thesis by blast
qed

text \<open>
  The test with an invalid rating: \<open>apple\<close> is there once, with one rating counted;
  \<open>samsung\<close>, with none, is absent.
\<close>

theorem brands_unique_and_counted_witness:
  "calculate_average_rating exact_ops records_invalid_rating =
     ([warning_text ''invalid'' ''p1'' ''apple''], Inr [(''apple'', Finite (49 / 10))]) \<and>
   distinct (map fst [(''apple'', Finite (49 / 10))]) \<and>
   ratings_of_brand exact_ops records_invalid_rating ''apple'' = [Finite (49 / 10)] \<and>
   ratings_of_brand exact_ops records_invalid_rating ''samsung'' = [] \<and>
   ''samsung'' \<notin> set (map fst [(''apple'', Finite (49 / 10))]) \<and>
   snd (calculate_average_rating exact_ops records_invalid_rating) \<noteq> Inl ZeroDivisionError"
proof -
  have run: "calculate_average_rating exact_ops records_invalid_rating =
     ([warning_text ''invalid'' ''p1'' ''apple''], Inr [(''apple'', Finite (49 / 10))])"
    by code_simp
  have apple: "ratings_of_brand exact_ops records_invalid_rating ''apple'' = [Finite (49 / 10)]"
    by code_simp
  have samsung: "ratings_of_brand exact_ops records_invalid_rating ''samsung'' = []"
    by code_simp
  from brands_unique_and_counted [of exact_ops records_invalid_rating
      "[warning_text ''invalid'' ''p1'' ''apple'']" "[(''apple'', Finite (49 / 10))]"] run
  have "snd (calculate_average_rating exact_ops records_invalid_rating) \<noteq> Inl ZeroDivisionError"
    and "distinct (map fst [(''apple'', Finite (49 / 10))])"
    and "''samsung'' \<in> set (map fst [(''apple'', Finite (49 / 10))]) \<longleftrightarrow>
      1 \<le> length (ratings_of_brand exact_ops records_invalid_rating ''samsung'')"
    by blast+
  with run apple samsung show ?thesis by simp
qed



text \<open>
  Claim C8. On the empty sequence \<open>calculate_average_rating\<close> returns the empty list
  and writes nothing, and \<open>generate_report\<close> for \<^verbatim>\<open>average-rating\<close> on the empty list
  returns, having printed the one table that \<^verbatim>\<open>tabulate\<close> makes of the two headers and
  no data row.
\<close>

theorem empty_input_is_not_an_error:
  "calculate_average_rating ops [] = ([], Inr []) \<and>
   generate_report ops tabulate ''average-rating'' [] =
     ([tabulate [] [''Brand'', ''Rating'']], Inr ())"
  by (simp add: calculate_average_rating_def generate_report_def rearrange_Nil)

text \<open>With the stand-in for \<^verbatim>\<open>tabulate\<close>, the table is its header line.\<close>

theorem empty_input_is_not_an_error_witness:
  "calculate_average_rating exact_ops [] = ([], Inr []) \<and>
   generate_report exact_ops plain_table ''average-rating'' [] =
     ([plain_table [] [''Brand'', ''Rating'']], Inr ()) \<and>
   plain_table [] [''Brand'', ''Rating''] = ''Brand|Rating|'' @ [CHR 0x0A]"
proof -
  have "plain_table [] [''Brand'', ''Rating''] = ''Brand|Rating|'' @ [CHR 0x0A]"
    by (simp add: plain_table_def)
  with empty_input_is_not_an_error [of exact_ops plain_table] show ?thesis
    by blast
qed

text \<open>
  Claim C9. Whether a rating counts is decided by \<^verbatim>\<open>float()\<close> alone. Among records of
  the data model, a record whose rating \<^verbatim>\<open>float()\<close> rejects changes nothing in the
  result; a record whose rating \<^verbatim>\<open>float()\<close> accepts, with whatever float, causes no
  warning, and that float is in the sum and the count of its brand, between the ratings
  of the records before it and after it. So a rating that \<^verbatim>\<open>float()\<close> turns into an
  infinity, a NaN, or the value of an exponent form or of a padded numeral counts like
  any other.
\<close>

theorem rating_counts_iff_float_accepts:
  assumes "list_all has_fields (before @ record # after)"
    and "map_of record ''brand'' = Some brand"
    and "map_of record ''rating'' = Some raw"
  shows "(parse_float ops raw = None \<longrightarrow>
            snd (calculate_average_rating ops (before @ record # after)) =
            snd (calculate_average_rating ops (before @ after))) \<and>
         (\<forall>rating. parse_float ops raw = Some rating \<longrightarrow>
            (\<exists>out. calculate_average_rating ops (before @ record # after) =
                 (fst (calculate_average_rating ops before) @
                  fst (calculate_average_rating ops after), Inr out) \<and>
               (brand, mean ops (ratings_of_brand ops before brand @ rating #
                                 ratings_of_brand ops after brand)) \<in> set out))"
proof -
  have all: "list_all (readable ops) (before @ record # after)"
    by (rule all_fields_readable [OF assms(1)])
  then have rest: "list_all (readable ops) (before @ after)"
    and b: "list_all (readable ops) before" and a: "list_all (readable ops) after"
    by simp_all
  have rejected: "snd (calculate_average_rating ops (before @ record # after)) =
            snd (calculate_average_rating ops (before @ after))"
    if none: "parse_float ops raw = None"
  proof -
    have "contribution ops record = None"
      using assms none by (simp add: contribution_def)
    then have "parsed_ratings ops (before @ record # after) = parsed_ratings ops (before @ after)"
      by (simp add: parsed_ratings_append parsed_ratings_Cons)
    then have "averages ops (before @ record # after) = averages ops (before @ after)"
      by (rule averages_cong)
    then show ?thesis
      by (simp add: calculate_readable [OF all] calculate_readable [OF rest])
  qed
  have accepted: "\<exists>out. calculate_average_rating ops (before @ record # after) =
                 (fst (calculate_average_rating ops before) @
                  fst (calculate_average_rating ops after), Inr out) \<and>
               (brand, mean ops (ratings_of_brand ops before brand @ rating #
                                 ratings_of_brand ops after brand)) \<in> set out"
    if some: "parse_float ops raw = Some rating" for rating
  proof -
    have c: "contribution ops record = Some (brand, rating)"
      using assms some by (simp add: contribution_def)
    have quiet: "warning_of ops record = None"
      using assms some by (simp add: warning_of_def split: option.splits)
    have ratings: "ratings_of_brand ops (before @ record # after) brand =
        ratings_of_brand ops before brand @ rating # ratings_of_brand ops after brand"
      by (simp add: ratings_of_brand_def parsed_ratings_append parsed_ratings_Cons c)
    then have "brand \<in> set (brands_seen ops (before @ record # after))"
      by (simp add: brands_seen_iff)
    then have "(brand, mean ops (ratings_of_brand ops before brand @ rating #
                                 ratings_of_brand ops after brand))
        \<in> set (rearrange (sort_by_rating ops) (averages ops (before @ record # after)))"
      by (simp add: set_rearrange set_averages ratings)
    then show ?thesis
      by (simp add: calculate_readable [OF all] calculate_readable [OF b]
          calculate_readable [OF a] map_filter_append warnings_Cons quiet)
  qed
  from rejected accepted show ?thesis by blast
qed

text \<open>
  The ratings \<^verbatim>\<open>inf\<close>, \<^verbatim>\<open>nan\<close>, \<^verbatim>\<open>1e2\<close> and a numeral between spaces: no warning, and
  one entry for each of the four brands.
\<close>

theorem rating_counts_iff_float_accepts_witness:
  "list_all has_fields ([] @ product ''p1'' ''a'' ''1'' ''inf'' #
      [product ''p2'' ''b'' ''2'' ''nan'', product ''p3'' ''c'' ''3'' ''1e2'',
       product ''p4'' ''d'' ''4'' '' 4.5 '']) \<and>
   parse_float exact_ops ''inf'' = Some PosInf \<and>
   records_special = [] @ product ''p1'' ''a'' ''1'' ''inf'' #
      [product ''p2'' ''b'' ''2'' ''nan'', product ''p3'' ''c'' ''3'' ''1e2'',
       product ''p4'' ''d'' ''4'' '' 4.5 ''] \<and>
   calculate_average_rating exact_ops records_special =
     ([], Inr [(''a'', PosInf), (''b'', NaN), (''c'', Finite 100), (''d'', Finite (9 / 2))]) \<and>
   (''a'', mean exact_ops ([] @ PosInf # [])) \<in>
     set [(''a'', PosInf), (''b'', NaN), (''c'', Finite 100), (''d'', Finite (9 / 2))]"
proof -
  have fields: "list_all has_fields ([] @ product ''p1'' ''a'' ''1'' ''inf'' #
      [product ''p2'' ''b'' ''2'' ''nan'', product ''p3'' ''c'' ''3'' ''1e2'',
       product ''p4'' ''d'' ''4'' '' 4.5 ''])"
    by (simp add: has_fields_def contains_def product_def)
  have brand: "map_of (product ''p1'' ''a'' ''1'' ''inf'') ''brand'' = Some ''a''"
    and raw: "map_of (product ''p1'' ''a'' ''1'' ''inf'') ''rating'' = Some ''inf''"
    by (simp_all add: product_def)
  have inf: "parse_float exact_ops ''inf'' = Some PosInf"
    by code_simp
  have same: "records_special = [] @ product ''p1'' ''a'' ''1'' ''inf'' #
      [product ''p2'' ''b'' ''2'' ''nan'', product ''p3'' ''c'' ''3'' ''1e2'',
       product ''p4'' ''d'' ''4'' '' 4.5 '']"
    by (simp add: records_special_def)
  have run: "calculate_average_rating exact_ops records_special =
     ([], Inr [(''a'', PosInf), (''b'', NaN), (''c'', Finite 100), (''d'', Finite (9 / 2))])"
    by code_simp
  have before: "ratings_of_brand exact_ops [] ''a'' = []"
    by code_simp
  have after: "ratings_of_brand exact_ops
      [product ''p2'' ''b'' ''2'' ''nan'', product ''p3'' ''c'' ''3'' ''1e2'',
       product ''p4'' ''d'' ''4'' '' 4.5 ''] ''a'' = []"
    by code_simp
  from rating_counts_iff_float_accepts [OF fields brand raw, of exact_ops] inf
  obtain out where "calculate_average_rating exact_ops ([] @ product ''p1'' ''a'' ''1'' ''inf'' #
      [product ''p2'' ''b'' ''2'' ''nan'', product ''p3'' ''c'' ''3'' ''1e2'',
       product ''p4'' ''d'' ''4'' '' 4.5 '']) =
        (fst (calculate_average_rating exact_ops []) @
         fst (calculate_average_rating exact_ops
           [product ''p2'' ''b'' ''2'' ''nan'', product ''p3'' ''c'' ''3'' ''1e2'',
            product ''p4'' ''d'' ''4'' '' 4.5 '']), Inr out)"
    and "(''a'', mean exact_ops (ratings_of_brand exact_ops [] ''a'' @ PosInf #
          ratings_of_brand exact_ops
            [product ''p2'' ''b'' ''2'' ''nan'', product ''p3'' ''c'' ''3'' ''1e2'',
             product ''p4'' ''d'' ''4'' '' 4.5 ''] ''a'')) \<in> set out"
    by blast
  moreover from this(1) run [unfolded same]
  have "out = [(''a'', PosInf), (''b'', NaN), (''c'', Finite 100), (''d'', Finite (9 / 2))]"
    by simp
  ultimately have "(''a'', mean exact_ops ([] @ PosInf # [])) \<in>
     set [(''a'', PosInf), (''b'', NaN), (''c'', Finite 100), (''d'', Finite (9 / 2))]"
    by (simp only: before after)
  with fields inf same run show ?thesis by blast
qed

text \<open>
  Claim C10. When some record of the sequence has no \<open>brand\<close> key or no \<open>rating\<close> key,
  \<open>calculate_average_rating\<close> returns no list: it ends with a \<^verbatim>\<open>KeyError\<close>. Such a
  record is not skipped the way a rating that does not parse is.
\<close>

theorem missing_key_raises:
  assumes "record \<in> set records"
    and "\<not> contains record ''brand'' \<or> \<not> contains record ''rating''"
  shows "\<exists>w key. calculate_average_rating ops records = (w, Inl (KeyError key))"
proof -
  have "\<not> readable ops record"
    using assms(2) by (auto simp: readable_def contains_map_of split: option.splits)
  with assms(1) have "\<not> list_all (readable ops) records"
    by (auto simp: list_all_iff)
  then show ?thesis by (rule calculate_unreadable)
qed

text \<open>A row without \<open>brand\<close> after a complete one: \<^verbatim>\<open>KeyError('brand')\<close>.\<close>

theorem missing_key_raises_witness:
  "[(''name'', ''p2''), (''price'', ''900''), (''rating'', ''4.7'')] \<in> set records_no_brand \<and>
   \<not> contains [(''name'', ''p2''), (''price'', ''900''), (''rating'', ''4.7'')] ''brand'' \<and>
   calculate_average_rating exact_ops records_no_brand = ([], Inl (KeyError ''brand''))"
proof -
  have mem: "[(''name'', ''p2''), (''price'', ''900''), (''rating'', ''4.7'')] \<in> set records_no_brand"
    by (simp add: records_no_brand_def)
  have no: "\<not> contains [(''name'', ''p2''), (''price'', ''900''), (''rating'', ''4.7'')] ''brand''"
    by (simp add: contains_def)
  have run: "calculate_average_rating exact_ops records_no_brand = ([], Inl (KeyError ''brand''))"
    by code_simp
  from missing_key_raises [OF mem, of exact_ops] no
  have "\<exists>w key. calculate_average_rating exact_ops records_no_brand = (w, Inl (KeyError key))"
    by blast
  with mem no run show ?thesis by blast
qed

end
